theory Spec2Isabelle
  imports Complex_Main
begin

section \<open>Python values reaching the service\<close>

text \<open>
  The service of \<^verbatim>\<open>app.py\<close> is a Flask application around a scikit-learn pipeline.
  Its own code is embedded function by function; what it calls (numpy, scikit-learn,
  joblib, the operating system) is not part of the repository and enters as parameters.

  A Python float is a real number or one of the three special values. Rounding to 53
  bits is abstracted: arithmetic on finite values is arithmetic on reals, and a value
  whose magnitude reaches \<open>2^1024 - 2^970\<close> is out of the double range.
\<close>

datatype pyfloat = Fin real | PInf | NInf | NaN

text \<open>
  The value of \<^verbatim>\<open>request.get_json()\<close>: Python's \<^verbatim>\<open>json\<close> module reads a number without
  fraction or exponent as an unbounded int, any other number as a float (the literals
  \<^verbatim>\<open>NaN\<close>, \<^verbatim>\<open>Infinity\<close> and \<^verbatim>\<open>-Infinity\<close> included), and an object as a dict, kept here
  as the list of its items (keys distinct, looked up with \<open>map_of\<close>).
\<close>

datatype json =
    JNull
  | JBool bool
  | JInt int
  | JFloat pyfloat
  | JStr string
  | JList "json list"
  | JObj "(string \<times> json) list"

text \<open>
  Exceptions, by the class the handler's \<^verbatim>\<open>except\<close> clauses can tell apart.
  \<open>ValueError\<close> stands for every instance of \<^verbatim>\<open>ValueError\<close> (subclasses included),
  \<open>OtherError\<close> for any other subclass of \<^verbatim>\<open>Exception\<close> (an HTTP error raised by
  \<^verbatim>\<open>get_json\<close>, an error of a library). The string is \<^verbatim>\<open>str(e)\<close>.
\<close>

datatype exn =
    ValueError string
  | TypeError string
  | OverflowError string
  | AttributeError string
  | IndexError string
  | KeyError string
  | OtherError string

fun exn_str :: "exn \<Rightarrow> string" where
  "exn_str (ValueError m) = m"
| "exn_str (TypeError m) = m"
| "exn_str (OverflowError m) = m"
| "exn_str (AttributeError m) = m"
| "exn_str (IndexError m) = m"
| "exn_str (KeyError m) = m"
| "exn_str (OtherError m) = m"

fun is_ValueError :: "exn \<Rightarrow> bool" where
  "is_ValueError (ValueError m) = True"
| "is_ValueError e = False"

definition quoted :: "string \<Rightarrow> string" where
  "quoted s = [CHR 0x27] @ s @ [CHR 0x27]"

definition bindE :: "exn + 'a \<Rightarrow> ('a \<Rightarrow> exn + 'b) \<Rightarrow> exn + 'b" where
  "bindE m f = (case m of Inl e \<Rightarrow> Inl e | Inr x \<Rightarrow> f x)"

subsection \<open>Comparison of a float with a finite constant\<close>

text \<open>
  \<^verbatim>\<open>x < c\<close> and \<^verbatim>\<open>x > c\<close> for a float \<open>x\<close> and a finite literal \<open>c\<close>: every
  comparison with NaN is false.
\<close>

fun flt_lt :: "pyfloat \<Rightarrow> real \<Rightarrow> bool" where
  "flt_lt (Fin r) c = (r < c)"
| "flt_lt NInf c = True"
| "flt_lt PInf c = False"
| "flt_lt NaN c = False"

fun flt_gt :: "pyfloat \<Rightarrow> real \<Rightarrow> bool" where
  "flt_gt (Fin r) c = (r > c)"
| "flt_gt PInf c = True"
| "flt_gt NInf c = False"
| "flt_gt NaN c = False"

subsection \<open>The builtin \<^verbatim>\<open>float\<close>\<close>

definition float_overflow :: real where
  "float_overflow = 2 ^ 1024 - 2 ^ 970"

definition to_float :: "real \<Rightarrow> pyfloat" where
  "to_float r = (if float_overflow \<le> r then PInf else if r \<le> - float_overflow then NInf else Fin r)"

definition is_space :: "char \<Rightarrow> bool" where
  "is_space c = (let n = (of_char c :: nat) in n = 32 \<or> (9 \<le> n \<and> n \<le> 13) \<or> (28 \<le> n \<and> n \<le> 31))"

definition strip :: "string \<Rightarrow> string" where
  "strip s = rev (dropWhile is_space (rev (dropWhile is_space s)))"

definition to_lower :: "char \<Rightarrow> char" where
  "to_lower c = (let n = (of_char c :: nat) in if 65 \<le> n \<and> n \<le> 90 then char_of (n + 32) else c)"

definition digit_val :: "char \<Rightarrow> nat option" where
  "digit_val c = (let n = (of_char c :: nat) in if 48 \<le> n \<and> n \<le> 57 then Some (n - 48) else None)"

text \<open>
  The digits of a \<^verbatim>\<open>digitpart\<close> after its first digit: further digits, each optionally
  preceded by one underscore. Returns the digits read and the unread rest.
\<close>

fun more_digits :: "string \<Rightarrow> nat list \<Rightarrow> nat list \<times> string" where
  "more_digits [] acc = (acc, [])"
| "more_digits [c] acc = (case digit_val c of Some d \<Rightarrow> (acc @ [d], []) | None \<Rightarrow> (acc, [c]))"
| "more_digits (c # c' # cs) acc =
     (case digit_val c of
        Some d \<Rightarrow> more_digits (c' # cs) (acc @ [d])
      | None \<Rightarrow>
          (if c = CHR ''_'' then
             (case digit_val c' of
                Some d \<Rightarrow> more_digits cs (acc @ [d])
              | None \<Rightarrow> (acc, c # c' # cs))
           else (acc, c # c' # cs)))"

text \<open>An optional \<^verbatim>\<open>digitpart\<close>: no digit read when the text does not start with one.\<close>

definition digits_opt :: "string \<Rightarrow> nat list \<times> string" where
  "digits_opt s =
     (case s of
        [] \<Rightarrow> ([], [])
      | c # cs \<Rightarrow> (case digit_val c of Some d \<Rightarrow> more_digits cs [d] | None \<Rightarrow> ([], s)))"

definition digits_value :: "nat list \<Rightarrow> nat" where
  "digits_value ds = foldl (\<lambda>a d. 10 * a + d) 0 ds"

definition scale10 :: "nat \<Rightarrow> int \<Rightarrow> real" where
  "scale10 m e = (if 0 \<le> e then real m * 10 ^ nat e else real m / 10 ^ nat (- e))"

text \<open>The optional exponent: absent (exponent 0), well-formed, or malformed (\<open>None\<close>).\<close>

definition exponent_opt :: "string \<Rightarrow> (int \<times> string) option" where
  "exponent_opt s =
     (case s of
        [] \<Rightarrow> Some (0, [])
      | c # cs \<Rightarrow>
          (if c = CHR ''e'' \<or> c = CHR ''E'' then
             (let (neg, ds) =
                (case cs of
                   [] \<Rightarrow> (False, cs)
                 | d # ds' \<Rightarrow> (if d = CHR ''-'' then (True, ds') else if d = CHR ''+'' then (False, ds') else (False, cs)));
                  (es, rest) = digits_opt ds
              in if es = [] then None
                 else Some ((if neg then - int (digits_value es) else int (digits_value es)), rest))
           else Some (0, s)))"

text \<open>The magnitude of an unsigned literal: \<^verbatim>\<open>inf\<close>, \<^verbatim>\<open>infinity\<close>, \<^verbatim>\<open>nan\<close> in any case, or a decimal number.\<close>

definition unsigned_float :: "string \<Rightarrow> pyfloat option" where
  "unsigned_float s =
     (let l = map to_lower s in
      if l = ''inf'' \<or> l = ''infinity'' then Some PInf
      else if l = ''nan'' then Some NaN
      else
        (let (ip, r1) = digits_opt s;
             (fp, r2) = (case r1 of [] \<Rightarrow> ([], r1) | c # cs \<Rightarrow> (if c = CHR ''.'' then digits_opt cs else ([], r1)))
         in if ip = [] \<and> fp = [] then None
            else
              (case exponent_opt r2 of
                 None \<Rightarrow> None
               | Some (e, rest) \<Rightarrow>
                   (if rest = [] then Some (to_float (scale10 (digits_value (ip @ fp)) (e - int (length fp))))
                    else None))))"

fun fneg :: "pyfloat \<Rightarrow> pyfloat" where
  "fneg (Fin r) = Fin (- r)"
| "fneg PInf = NInf"
| "fneg NInf = PInf"
| "fneg NaN = NaN"

text \<open>\<^verbatim>\<open>float(s)\<close> for a string: \<open>None\<close> where Python raises \<^verbatim>\<open>ValueError\<close>.\<close>

definition float_of_string :: "string \<Rightarrow> pyfloat option" where
  "float_of_string s =
     (case strip s of
        [] \<Rightarrow> None
      | c # cs \<Rightarrow>
          (if c = CHR ''-'' then map_option fneg (unsigned_float cs)
           else if c = CHR ''+'' then unsigned_float cs
           else unsigned_float (c # cs)))"

text \<open>
  \<^verbatim>\<open>repr\<close> of a string, as the message of the conversion error shows it: quoted with
  \<^verbatim>\<open>'\<close> unless the string holds \<^verbatim>\<open>'\<close> and no \<^verbatim>\<open>"\<close>; backslash, the quote
  and control characters escaped.
\<close>

definition hex_digit :: "nat \<Rightarrow> char" where
  "hex_digit n = (if n < 10 then char_of (48 + n) else char_of (87 + n))"

definition repr_char :: "char \<Rightarrow> char \<Rightarrow> string" where
  "repr_char q c =
     (let n = (of_char c :: nat) in
      if c = q \<or> c = CHR 0x5C then [CHR 0x5C, c]
      else if n = 9 then [CHR 0x5C, CHR ''t'']
      else if n = 10 then [CHR 0x5C, CHR ''n'']
      else if n = 13 then [CHR 0x5C, CHR ''r'']
      else if n < 32 \<or> n = 127 then [CHR 0x5C, CHR ''x'', hex_digit (n div 16), hex_digit (n mod 16)]
      else [c])"

definition py_repr :: "string \<Rightarrow> string" where
  "py_repr s =
     (let q = (if CHR 0x27 \<in> set s \<and> CHR 0x22 \<notin> set s then CHR 0x22 else CHR 0x27)
      in [q] @ concat (map (repr_char q) s) @ [q])"

text \<open>
  \<^verbatim>\<open>float(v)\<close> for a JSON value. An int beyond the double range raises
  \<^verbatim>\<open>OverflowError\<close>; a string that is no float literal raises \<^verbatim>\<open>ValueError\<close>;
  \<^verbatim>\<open>None\<close>, a list and a dict raise \<^verbatim>\<open>TypeError\<close>.
\<close>

fun py_float :: "json \<Rightarrow> exn + pyfloat" where
  "py_float (JFloat x) = Inr x"
| "py_float (JInt n) =
     (if float_overflow \<le> \<bar>real_of_int n\<bar> then Inl (OverflowError ''int too large to convert to float'')
      else Inr (Fin (real_of_int n)))"
| "py_float (JBool b) = Inr (Fin (if b then 1 else 0))"
| "py_float (JStr s) =
     (case float_of_string s of
        None \<Rightarrow> Inl (ValueError (''could not convert string to float: '' @ py_repr s))
      | Some x \<Rightarrow> Inr x)"
| "py_float JNull = Inl (TypeError (''float() argument must be a string or a real number, not '' @ quoted ''NoneType''))"
| "py_float (JList xs) = Inl (TypeError (''float() argument must be a string or a real number, not '' @ quoted ''list''))"
| "py_float (JObj kvs) = Inl (TypeError (''float() argument must be a string or a real number, not '' @ quoted ''dict''))"

subsection \<open>Membership and subscription\<close>

fun is_substring :: "string \<Rightarrow> string \<Rightarrow> bool" where
  "is_substring f [] = (f = [])"
| "is_substring f (c # cs) = (take (length f) (c # cs) = f \<or> is_substring f cs)"

text \<open>
  \<^verbatim>\<open>field in data\<close>: a key of a dict, an element of a list, a substring of a string;
  \<^verbatim>\<open>TypeError\<close> for a value that is no container.
\<close>

fun py_contains :: "json \<Rightarrow> string \<Rightarrow> exn + bool" where
  "py_contains (JObj kvs) f = Inr (f \<in> set (map fst kvs))"
| "py_contains (JList xs) f = Inr (JStr f \<in> set xs)"
| "py_contains (JStr s) f = Inr (is_substring f s)"
| "py_contains JNull f = Inl (TypeError (''argument of type '' @ quoted ''NoneType'' @ '' is not iterable''))"
| "py_contains (JBool b) f = Inl (TypeError (''argument of type '' @ quoted ''bool'' @ '' is not iterable''))"
| "py_contains (JInt n) f = Inl (TypeError (''argument of type '' @ quoted ''int'' @ '' is not iterable''))"
| "py_contains (JFloat x) f = Inl (TypeError (''argument of type '' @ quoted ''float'' @ '' is not iterable''))"

text \<open>\<^verbatim>\<open>data[key]\<close> for a string key.\<close>

fun py_getitem :: "json \<Rightarrow> string \<Rightarrow> exn + json" where
  "py_getitem (JObj kvs) k = (case map_of kvs k of Some v \<Rightarrow> Inr v | None \<Rightarrow> Inl (KeyError (py_repr k)))"
| "py_getitem (JList xs) k = Inl (TypeError ''list indices must be integers or slices, not str'')"
| "py_getitem (JStr s) k = Inl (TypeError (''string indices must be integers, not '' @ quoted ''str''))"
| "py_getitem JNull k = Inl (TypeError (quoted ''NoneType'' @ '' object is not subscriptable''))"
| "py_getitem (JBool b) k = Inl (TypeError (quoted ''bool'' @ '' object is not subscriptable''))"
| "py_getitem (JInt n) k = Inl (TypeError (quoted ''int'' @ '' object is not subscriptable''))"
| "py_getitem (JFloat x) k = Inl (TypeError (quoted ''float'' @ '' object is not subscriptable''))"

section \<open>The libraries and the process state\<close>

text \<open>
  What \<^verbatim>\<open>app.py\<close> calls in numpy, scikit-learn and joblib is taken as parameters, one
  record for the random generator and one for the estimators. A fitted scaler or model
  is a value of \<open>'obj\<close>, a scaled matrix a value of \<open>'mat\<close>, the global generator state a
  value of \<open>'g\<close>. The calls made while training are total functions; the two calls a
  request makes can raise.
\<close>

record 'g numpy_random =
  np_seed :: "nat \<Rightarrow> 'g"
  np_randint :: "int \<Rightarrow> int \<Rightarrow> 'g \<Rightarrow> int \<times> 'g"
  np_rand :: "'g \<Rightarrow> real \<times> 'g"
  np_choice :: "real list \<Rightarrow> 'g \<Rightarrow> real \<times> 'g"
  np_normal :: "real \<Rightarrow> real \<Rightarrow> 'g \<Rightarrow> real \<times> 'g"

record ('obj, 'mat) sklearn =
  sk_train_test_split ::
    "real list list \<Rightarrow> real list \<Rightarrow> real \<Rightarrow> nat \<Rightarrow> real list list \<times> real list list \<times> real list \<times> real list"
  scaler_fit_transform :: "real list list \<Rightarrow> 'obj \<times> 'mat"
  model_fit :: "'mat \<Rightarrow> real list \<Rightarrow> 'obj"
  scaler_transform :: "'obj \<Rightarrow> pyfloat list list \<Rightarrow> exn + 'mat"
  model_predict :: "'obj \<Rightarrow> 'mat \<Rightarrow> exn + pyfloat list"

text \<open>
  The module globals \<^verbatim>\<open>model\<close> and \<^verbatim>\<open>scaler\<close> (\<open>None\<close> until loaded), numpy's global
  generator, and the files of the working directory. A file holds the object that
  \<^verbatim>\<open>joblib.dump\<close> wrote: pickling is abstracted to the identity.
\<close>

record ('obj, 'g) world =
  model :: "'obj option"
  scaler :: "'obj option"
  rng :: 'g
  files :: "string \<rightharpoonup> 'obj"

definition feature_names :: "string list" where
  "feature_names = [''bedrooms'', ''bathrooms'', ''sqft_living'', ''floors'', ''age'']"

section \<open>The prediction endpoint\<close>

text \<open>A response is a status code and the JSON body given to \<^verbatim>\<open>jsonify\<close>.\<close>

type_synonym response = "nat \<times> json"

definition error_body :: "string \<Rightarrow> json" where
  "error_body msg = JObj [(''error'', JStr msg)]"

text \<open>
  Lines 109 to 112: the loop over the required fields returns at the first field that
  is not in the data (\<open>Some field\<close>), and raises where \<^verbatim>\<open>in\<close> does.
\<close>

fun missing_field :: "json \<Rightarrow> string list \<Rightarrow> exn + string option" where
  "missing_field data [] = Inr None"
| "missing_field data (field # rest) =
     (case py_contains data field of
        Inl e \<Rightarrow> Inl e
      | Inr present \<Rightarrow> (if \<not> present then Inr (Some field) else missing_field data rest))"

text \<open>Lines 115 to 121: the five conversions, evaluated left to right.\<close>

definition extract_features :: "json \<Rightarrow> exn + pyfloat list" where
  "extract_features data =
     bindE (bindE (py_getitem data ''bedrooms'') py_float) (\<lambda>f0.
     bindE (bindE (py_getitem data ''bathrooms'') py_float) (\<lambda>f1.
     bindE (bindE (py_getitem data ''sqft_living'') py_float) (\<lambda>f2.
     bindE (bindE (py_getitem data ''floors'') py_float) (\<lambda>f3.
     bindE (bindE (py_getitem data ''age'') py_float) (\<lambda>f4.
     Inr [f0, f1, f2, f3, f4])))))"

text \<open>Lines 124 to 133: the message of the first range check that fires, if any.\<close>

definition range_error :: "pyfloat list \<Rightarrow> string option" where
  "range_error features =
     (if flt_lt (features ! 0) 1 \<or> flt_gt (features ! 0) 10 then
        Some ''Bedrooms must be between 1 and 10''
      else if flt_lt (features ! 1) 0.5 \<or> flt_gt (features ! 1) 10 then
        Some ''Bathrooms must be between 0.5 and 10''
      else if flt_lt (features ! 2) 100 \<or> flt_gt (features ! 2) 20000 then
        Some ''Square footage must be between 100 and 20,000''
      else if flt_lt (features ! 3) 1 \<or> flt_gt (features ! 3) 5 then
        Some ''Floors must be between 1 and 5''
      else if flt_lt (features ! 4) 0 \<or> flt_gt (features ! 4) 200 then
        Some ''Age must be between 0 and 200 years''
      else None)"

text \<open>
  Lines 136 to 139: \<^verbatim>\<open>scaler.transform([features])\<close> and
  \<^verbatim>\<open>model.predict(features_scaled)[0]\<close>. An attribute of \<^verbatim>\<open>None\<close> raises
  \<^verbatim>\<open>AttributeError\<close>; the first element of an empty result raises \<^verbatim>\<open>IndexError\<close>.
\<close>

definition none_attribute :: "string \<Rightarrow> exn" where
  "none_attribute a = AttributeError (quoted ''NoneType'' @ '' object has no attribute '' @ quoted a)"

definition raw_prediction ::
  "('obj, 'mat) sklearn \<Rightarrow> ('obj, 'g) world \<Rightarrow> pyfloat list \<Rightarrow> exn + pyfloat" where
  "raw_prediction L w features =
     bindE (case scaler w of
              None \<Rightarrow> Inl (none_attribute ''transform'')
            | Some sc \<Rightarrow> scaler_transform L sc [features]) (\<lambda>features_scaled.
     bindE (case model w of
              None \<Rightarrow> Inl (none_attribute ''predict'')
            | Some m \<Rightarrow> model_predict L m features_scaled) (\<lambda>ys.
     (case ys of
        [] \<Rightarrow> Inl (IndexError ''index 0 is out of bounds for axis 0 with size 0'')
      | y # _ \<Rightarrow> Inr y)))"

text \<open>
  A Python number after \<^verbatim>\<open>max\<close>: the int literal or the float prediction.
  \<^verbatim>\<open>max(a, b)\<close> is \<open>b\<close> when \<^verbatim>\<open>b > a\<close> holds and \<open>a\<close> otherwise, so a NaN
  first argument is returned as it is.
\<close>

datatype pynum = PyInt int | PyFloat pyfloat

definition py_max :: "pyfloat \<Rightarrow> int \<Rightarrow> pynum" where
  "py_max a b = (if flt_lt a (real_of_int b) then PyInt b else PyFloat a)"

definition round_half_even :: "real \<Rightarrow> int" where
  "round_half_even x =
     (let f = \<lfloor>x\<rfloor>; d = x - of_int f
      in if d < 1 / 2 then f else if 1 / 2 < d then f + 1 else if even f then f else f + 1)"

text \<open>\<^verbatim>\<open>round(x, 2)\<close>: an int is returned unchanged, a float is rounded to two decimals.\<close>

fun py_round2 :: "pynum \<Rightarrow> pynum" where
  "py_round2 (PyInt n) = PyInt n"
| "py_round2 (PyFloat (Fin r)) = PyFloat (Fin (real_of_int (round_half_even (r * 100)) / 100))"
| "py_round2 (PyFloat x) = PyFloat x"

fun num_json :: "pynum \<Rightarrow> json" where
  "num_json (PyInt n) = JInt n"
| "num_json (PyFloat x) = JFloat x"

text \<open>The format \<^verbatim>\<open>,.2f\<close>: two decimals, the integer part grouped in thousands.\<close>

fun nat_digits :: "nat \<Rightarrow> string" where
  "nat_digits n = (if n < 10 then [char_of (48 + n)] else nat_digits (n div 10) @ [char_of (48 + n mod 10)])"

fun group3 :: "string \<Rightarrow> string" where
  "group3 (a # b # c # d # ds) = a # b # c # CHR '','' # group3 (d # ds)"
| "group3 ds = ds"

definition with_commas :: "string \<Rightarrow> string" where
  "with_commas s = rev (group3 (rev s))"

fun format_2f :: "pyfloat \<Rightarrow> string" where
  "format_2f (Fin r) =
     (let c = nat (round_half_even (\<bar>r\<bar> * 100))
      in (if r < 0 then ''-'' else []) @ with_commas (nat_digits (c div 100)) @ ''.''
         @ (if c mod 100 < 10 then ''0'' else []) @ nat_digits (c mod 100))"
| "format_2f PInf = ''inf''"
| "format_2f NInf = ''-inf''"
| "format_2f NaN = ''nan''"

fun num_float :: "pynum \<Rightarrow> pyfloat" where
  "num_float (PyInt n) = Fin (real_of_int n)"
| "num_float (PyFloat x) = x"

text \<open>Lines 142 to 154: the floor of 50000 and the body of the 200 response.\<close>

definition success_body :: "pyfloat \<Rightarrow> pyfloat list \<Rightarrow> json" where
  "success_body raw features =
     (let prediction = py_max raw 50000 in
      JObj [(''predicted_price'', num_json (py_round2 prediction)),
            (''formatted_price'', JStr (''$'' @ format_2f (num_float prediction))),
            (''input_features'',
               JObj [(''bedrooms'', JFloat (features ! 0)),
                     (''bathrooms'', JFloat (features ! 1)),
                     (''sqft_living'', JFloat (features ! 2)),
                     (''floors'', JFloat (features ! 3)),
                     (''age'', JFloat (features ! 4))])])"

text \<open>The body of the \<^verbatim>\<open>try\<close> block (lines 105 to 154), for the data \<^verbatim>\<open>get_json\<close> returned.\<close>

definition predict_try ::
  "('obj, 'mat) sklearn \<Rightarrow> ('obj, 'g) world \<Rightarrow> json \<Rightarrow> exn + response" where
  "predict_try L w data =
     bindE (missing_field data feature_names) (\<lambda>missing.
     (case missing of
        Some field \<Rightarrow> Inr (400, error_body (''Missing required field: '' @ field))
      | None \<Rightarrow>
          bindE (extract_features data) (\<lambda>features.
          (case range_error features of
             Some msg \<Rightarrow> Inr (400, error_body msg)
           | None \<Rightarrow>
               bindE (raw_prediction L w features) (\<lambda>raw.
               Inr (200, success_body raw features))))))"

text \<open>
  \<^verbatim>\<open>predict_price\<close> (lines 101 to 159). The request is what \<^verbatim>\<open>request.get_json()\<close>
  does: it raises or returns the parsed body. A \<^verbatim>\<open>ValueError\<close> becomes a 400, any
  other exception a 500.
\<close>

definition predict_price ::
  "('obj, 'mat) sklearn \<Rightarrow> ('obj, 'g) world \<Rightarrow> exn + json \<Rightarrow> response" where
  "predict_price L w request =
     (case bindE request (predict_try L w) of
        Inr resp \<Rightarrow> resp
      | Inl e \<Rightarrow>
          (if is_ValueError e then (400, error_body (''Invalid input data: '' @ exn_str e))
           else (500, error_body (''Prediction failed: '' @ exn_str e))))"

section \<open>The other endpoints\<close>

text \<open>\<^verbatim>\<open>health_check\<close> (lines 96 to 99) reads no state.\<close>

definition health_check :: response where
  "health_check =
     (200, JObj [(''status'', JStr ''healthy''),
                 (''message'', JStr ''House Price Prediction API is running'')])"

definition model_info_body :: json where
  "model_info_body =
     JObj [(''model_type'', JStr ''Linear Regression''),
           (''features'', JList (map JStr feature_names)),
           (''feature_descriptions'',
              JObj [(''bedrooms'', JStr ''Number of bedrooms (1-10)''),
                    (''bathrooms'', JStr ''Number of bathrooms (0.5-10)''),
                    (''sqft_living'', JStr ''Living area in square feet (100-20,000)''),
                    (''floors'', JStr ''Number of floors (1-5)''),
                    (''age'', JStr ''Age of the house in years (0-200)'')])]"

text \<open>\<^verbatim>\<open>model_info\<close> (lines 161 to 177) tests the global \<^verbatim>\<open>model\<close> only.\<close>

definition model_info :: "('obj, 'g) world \<Rightarrow> response" where
  "model_info w =
     (case model w of
        None \<Rightarrow> (500, error_body ''Model not loaded'')
      | Some m \<Rightarrow> (200, model_info_body))"

section \<open>Synthesizing the data, training and loading\<close>

text \<open>
  A vector draw of \<open>n\<close> samples is \<open>n\<close> successive draws from the generator, so every
  column has \<open>n\<close> entries whatever the generator does.
\<close>

fun draw_n :: "('g \<Rightarrow> 'a \<times> 'g) \<Rightarrow> nat \<Rightarrow> 'g \<Rightarrow> 'a list \<times> 'g" where
  "draw_n d 0 g = ([], g)"
| "draw_n d (Suc n) g = (let (x, g1) = d g; (xs, g2) = draw_n d n g1 in (x # xs, g2))"

definition n_samples :: nat where
  "n_samples = 1000"

record dataframe =
  bedrooms :: "int list"
  bathrooms :: "real list"
  sqft_living :: "int list"
  floors :: "real list"
  age :: "int list"
  price :: "real list"

text \<open>
  Lines 22 to 31: the generator is seeded with 42, whatever its state was, and the five
  feature columns are drawn in the order of the dict literal. The result carries the
  generator state left for the noise.
\<close>

definition draw_columns ::
  "'g numpy_random \<Rightarrow> (int list \<times> real list \<times> int list \<times> real list \<times> int list) \<times> 'g" where
  "draw_columns R =
     (let g0 = np_seed R 42;
          (bed, g1) = draw_n (np_randint R 1 6) n_samples g0;
          (bath_i, g2) = draw_n (np_randint R 1 4) n_samples g1;
          (bath_f, g3) = draw_n (np_rand R) n_samples g2;
          (sqft, g4) = draw_n (np_randint R 800 5000) n_samples g3;
          (fl, g5) = draw_n (np_choice R [1, 1.5, 2, 2.5, 3]) n_samples g4;
          (ag, g6) = draw_n (np_randint R 0 50) n_samples g5
      in ((bed, map2 (\<lambda>i f. real_of_int i + f) bath_i bath_f, sqft, fl, ag), g6))"

text \<open>Line 40: the noise vector, drawn after the columns.\<close>

definition draw_noise :: "'g numpy_random \<Rightarrow> 'g \<Rightarrow> real list \<times> 'g" where
  "draw_noise R g = draw_n (np_normal R 0 20000) n_samples g"

text \<open>Lines 34 to 42, for one row: the price before the floor.\<close>

definition raw_price :: "int \<Rightarrow> real \<Rightarrow> int \<Rightarrow> real \<Rightarrow> int \<Rightarrow> real \<Rightarrow> real" where
  "raw_price bed bath sqft fl ag noise =
     real_of_int bed * 15000 + bath * 20000 + real_of_int sqft * 150 + fl * 10000
       - real_of_int ag * 2000 + noise + 200000"

text \<open>
  \<^verbatim>\<open>create_sample_data\<close> (lines 20 to 46). The argument is the state of the global
  generator at the call; the second result is its state afterwards.
\<close>

definition create_sample_data :: "'g numpy_random \<Rightarrow> 'g \<Rightarrow> dataframe \<times> 'g" where
  "create_sample_data R g =
     (let ((bed, bath, sqft, fl, ag), g6) = draw_columns R;
          (noise, g7) = draw_noise R g6;
          prices = map (\<lambda>i. raw_price (bed ! i) (bath ! i) (sqft ! i) (fl ! i) (ag ! i) (noise ! i))
                       [0..<n_samples]
      in (\<lparr>bedrooms = bed, bathrooms = bath, sqft_living = sqft, floors = fl, age = ag,
           price = map (\<lambda>p. max p 100000) prices\<rparr>, g7))"


text \<open>\<^verbatim>\<open>df[feature_names]\<close>: the rows of the five feature columns, in the declared order.\<close>

definition feature_rows :: "dataframe \<Rightarrow> real list list" where
  "feature_rows df =
     map (\<lambda>i. [real_of_int (bedrooms df ! i), bathrooms df ! i, real_of_int (sqft_living df ! i),
               floors df ! i, real_of_int (age df ! i)])
         [0..<length (price df)]"

definition model_path :: string where
  "model_path = ''house_price_model.pkl''"

definition scaler_path :: string where
  "scaler_path = ''scaler.pkl''"

text \<open>
  The part of \<^verbatim>\<open>train_model\<close> that fits (lines 53 to 69): the data, the split with
  \<^verbatim>\<open>test_size=0.2\<close> and \<^verbatim>\<open>random_state=42\<close>, the scaler fitted on the training rows
  and the regression fitted on the scaled rows. It returns the fitted scaler, the
  fitted model and the generator state.
\<close>

definition fit_pipeline ::
  "'g numpy_random \<Rightarrow> ('obj, 'mat) sklearn \<Rightarrow> 'g \<Rightarrow> 'obj \<times> 'obj \<times> 'g" where
  "fit_pipeline R L g =
     (let (df, g') = create_sample_data R g;
          X = feature_rows df;
          y = price df;
          (X_train, X_test, y_train, y_test) = sk_train_test_split L X y 0.2 42;
          (sc, X_train_scaled) = scaler_fit_transform L X_train;
          m = model_fit L X_train_scaled y_train
      in (sc, m, g'))"

text \<open>
  \<^verbatim>\<open>train_model\<close> (lines 48 to 82): the globals are assigned and both artifacts are
  written, the model file first. Lines 65 and 72 to 78 compute the test metrics and
  print them; they change no state and are left out, as is every \<^verbatim>\<open>print\<close>.
\<close>

definition train_model ::
  "'g numpy_random \<Rightarrow> ('obj, 'mat) sklearn \<Rightarrow> ('obj, 'g) world \<Rightarrow> ('obj, 'g) world" where
  "train_model R L w =
     (let (sc, m, g') = fit_pipeline R L (rng w)
      in w\<lparr>scaler := Some sc, model := Some m, rng := g',
           files := (files w)(model_path \<mapsto> m, scaler_path \<mapsto> sc)\<rparr>)"

definition path_exists :: "('obj, 'g) world \<Rightarrow> string \<Rightarrow> bool" where
  "path_exists w p = (p \<in> dom (files w))"

text \<open>
  \<^verbatim>\<open>load_model\<close> (lines 84 to 94). Under the test both files exist, so
  \<^verbatim>\<open>joblib.load\<close> of each path is the object the file holds.
\<close>

definition load_model ::
  "'g numpy_random \<Rightarrow> ('obj, 'mat) sklearn \<Rightarrow> ('obj, 'g) world \<Rightarrow> ('obj, 'g) world" where
  "load_model R L w =
     (if path_exists w model_path \<and> path_exists w scaler_path then
        w\<lparr>model := files w model_path, scaler := files w scaler_path\<rparr>
      else train_model R L w)"

section \<open>The declared ranges\<close>

text \<open>
  The table of valid ranges as the interface documents it, in the declared order of the
  features, with the message of each feature. It is used to state what the range checks
  of \<open>range_error\<close> do; the handler itself does not read it.
\<close>

definition declared_ranges :: "(real \<times> real) list" where
  "declared_ranges = [(1, 10), (0.5, 10), (100, 20000), (1, 5), (0, 200)]"


text \<open>A value lies in a range when it is a finite number between the two bounds.\<close>

fun in_declared_range :: "pyfloat \<Rightarrow> real \<times> real \<Rightarrow> bool" where
  "in_declared_range (Fin r) (lo, hi) = (lo \<le> r \<and> r \<le> hi)"
| "in_declared_range PInf (lo, hi) = False"
| "in_declared_range NInf (lo, hi) = False"
| "in_declared_range NaN (lo, hi) = False"


text \<open>A JSON number that is at least \<open>c\<close>.\<close>

fun num_ge :: "json \<Rightarrow> real \<Rightarrow> bool" where
  "num_ge (JInt n) c = (c \<le> real_of_int n)"
| "num_ge (JFloat (Fin r)) c = (c \<le> r)"
| "num_ge (JFloat PInf) c = True"
| "num_ge j c = False"

text \<open>A request body that is an object with the five declared fields and no other.\<close>

definition feature_object :: "json \<Rightarrow> json \<Rightarrow> json \<Rightarrow> json \<Rightarrow> json \<Rightarrow> json" where
  "feature_object a b c d e =
     JObj [(''bedrooms'', a), (''bathrooms'', b), (''sqft_living'', c), (''floors'', d), (''age'', e)]"

section \<open>A small library instance\<close>

text \<open>
  One concrete generator and one concrete pair of estimators, on which the theorems
  below are evaluated. The generator is a counter; a scaler is a list of means, a model
  a list of weights, and both estimators reject a value that is not finite with a
  \<^verbatim>\<open>ValueError\<close>.
\<close>

definition demo_random :: "nat numpy_random" where
  "demo_random =
     \<lparr>np_seed = (\<lambda>n. n),
      np_randint = (\<lambda>lo hi g. (lo + int g mod (hi - lo), Suc g)),
      np_rand = (\<lambda>g. (real (g mod 4) / 4, Suc g)),
      np_choice = (\<lambda>xs g. (xs ! (g mod length xs), Suc g)),
      np_normal = (\<lambda>mu sd g. (mu + sd * (real (g mod 5) - 2), Suc g))\<rparr>"

fun fin_value :: "pyfloat \<Rightarrow> real option" where
  "fin_value (Fin r) = Some r"
| "fin_value x = None"

definition fin_row :: "pyfloat list \<Rightarrow> real list option" where
  "fin_row xs = (if list_all (\<lambda>x. fin_value x \<noteq> None) xs then Some (map (\<lambda>x. the (fin_value x)) xs) else None)"

definition demo_sklearn :: "(real list, real list list) sklearn" where
  "demo_sklearn =
     \<lparr>sk_train_test_split = (\<lambda>X y test_size random_state.
         (let k = length y - nat \<lfloor>test_size * real (length y)\<rfloor>
          in (take k X, drop k X, take k y, drop k y))),
      scaler_fit_transform = (\<lambda>X. (replicate 5 0, X)),
      model_fit = (\<lambda>X y. [15000, 20000, 150, 10000, - 2000]),
      scaler_transform = (\<lambda>sc X.
         (if list_all (\<lambda>row. fin_row row \<noteq> None) X
          then Inr (map (\<lambda>row. map2 (\<lambda>x m. x - m) (the (fin_row row)) sc) X)
          else Inl (ValueError ''Input X contains NaN or infinity.''))),
      model_predict = (\<lambda>m X. Inr (map (\<lambda>row. Fin (sum_list (map2 (*) m row))) X))\<rparr>"

definition demo_world :: "(real list, nat) world" where
  "demo_world =
     \<lparr>model = Some [15000, 20000, 150, 10000, - 2000], scaler = Some [0, 0, 0, 0, 0],
      rng = 0, files = Map.empty\<rparr>"

section \<open>Properties\<close>

subsection \<open>Sequencing\<close>

lemma bindE_Inl: "bindE (Inl e) f = Inl e"
  by (simp add: bindE_def)

lemma bindE_Inr: "bindE (Inr x) f = f x"
  by (simp add: bindE_def)

lemma bindE_eq_Inr: "bindE m f = Inr y \<longleftrightarrow> (\<exists>x. m = Inr x \<and> f x = Inr y)"
  by (cases m) (simp_all add: bindE_def)

subsection \<open>Missing fields\<close>

lemma missing_field_object:
  "missing_field (JObj kvs) names = Inr (find (\<lambda>f. f \<notin> set (map fst kvs)) names)"
  by (induction names) simp_all



subsection \<open>The features of a request\<close>

lemma py_getitem_Inr: "py_getitem data k = Inr v \<Longrightarrow> \<exists>kvs. data = JObj kvs \<and> map_of kvs k = Some v"
  by (cases data) (auto split: option.splits)


lemma extract_features_present:
  assumes "extract_features data = Inr fs"
  shows "missing_field data feature_names = Inr None"
proof -
  from assms obtain v where "py_getitem data ''bedrooms'' = Inr v"
    by (auto simp: extract_features_def bindE_eq_Inr)
  then obtain kvs where d: "data = JObj kvs"
    using py_getitem_Inr by blast
  have "k \<in> set (map fst kvs)" if "py_getitem (JObj kvs) k = Inr x" for k x
    using that by (auto split: option.splits dest: map_of_SomeD intro: rev_image_eqI)
  with assms d have "\<forall>k \<in> set feature_names. k \<in> set (map fst kvs)"
    by (auto simp: extract_features_def bindE_eq_Inr feature_names_def)
  then have "find (\<lambda>f. f \<notin> set (map fst kvs)) feature_names = None"
    by (simp add: find_None_iff)
  with d show ?thesis by (simp add: missing_field_object)
qed

lemma predict_try_features:
  assumes "extract_features data = Inr fs"
  shows "predict_try L w data =
     (case range_error fs of
        Some msg \<Rightarrow> Inr (400, error_body msg)
      | None \<Rightarrow> bindE (raw_prediction L w fs) (\<lambda>raw. Inr (200, success_body raw fs)))"
  using assms extract_features_present [OF assms]
  by (simp add: predict_try_def bindE_Inr)

subsection \<open>The floor of the predicted price\<close>

lemma round_half_even_ge: "real_of_int n \<le> x \<Longrightarrow> n \<le> round_half_even x"
proof -
  assume "real_of_int n \<le> x"
  then have "n \<le> \<lfloor>x\<rfloor>" by (simp add: le_floor_iff)
  moreover have "\<lfloor>x\<rfloor> \<le> round_half_even x"
    by (simp add: round_half_even_def Let_def)
  ultimately show ?thesis by linarith
qed

lemma floor_price:
  assumes "raw \<noteq> NaN"
  shows "num_ge (num_json (py_round2 (py_max raw 50000))) 50000"
proof (cases raw)
  case (Fin r)
  show ?thesis
  proof (cases "r < 50000")
    case True
    with Fin show ?thesis by (simp add: py_max_def)
  next
    case False
    then have "real_of_int 5000000 \<le> r * 100" by simp
    then have "5000000 \<le> round_half_even (r * 100)" by (rule round_half_even_ge)
    then have "(50000::real) \<le> real_of_int (round_half_even (r * 100)) / 100" by simp
    with Fin False show ?thesis by (simp add: py_max_def)
  qed
qed (use assms in \<open>simp_all add: py_max_def\<close>)

lemma range_error_in_range:
  assumes "1 \<le> b" "b \<le> 10" "0.5 \<le> ba" "ba \<le> 10" "100 \<le> s" "s \<le> 20000" "1 \<le> fl" "fl \<le> 5" "0 \<le> a" "a \<le> 200"
  shows "range_error [Fin b, Fin ba, Fin s, Fin fl, Fin a] = None"
  using assms by (simp add: range_error_def)

text \<open>
  C1. For a request whose five values convert to finite numbers inside the declared
  ranges, and for which the stored scaler and model return a number as raw prediction,
  the answer is 200 and its \<^verbatim>\<open>predicted_price\<close> is a number of at least 50000: the raw
  prediction after \<^verbatim>\<open>max(prediction, 50000)\<close> and \<^verbatim>\<open>round(prediction, 2)\<close>.
\<close>

theorem predict_price_floor:
  assumes "extract_features data = Inr [Fin b, Fin ba, Fin s, Fin fl, Fin a]"
    and "1 \<le> b" "b \<le> 10" "0.5 \<le> ba" "ba \<le> 10" "100 \<le> s" "s \<le> 20000"
        "1 \<le> fl" "fl \<le> 5" "0 \<le> a" "a \<le> 200"
    and "raw_prediction L w [Fin b, Fin ba, Fin s, Fin fl, Fin a] = Inr raw"
    and "raw \<noteq> NaN"
  shows "\<exists>price rest. predict_price L w (Inr data) = (200, JObj ((''predicted_price'', price) # rest))
            \<and> price = num_json (py_round2 (py_max raw 50000)) \<and> num_ge price 50000"
proof -
  have "range_error [Fin b, Fin ba, Fin s, Fin fl, Fin a] = None"
    using assms(2-11) by (rule range_error_in_range)
  with assms(1,12) have "predict_try L w data = Inr (200, success_body raw [Fin b, Fin ba, Fin s, Fin fl, Fin a])"
    by (simp add: predict_try_features bindE_Inr)
  then have "predict_price L w (Inr data) = (200, success_body raw [Fin b, Fin ba, Fin s, Fin fl, Fin a])"
    by (simp add: predict_price_def bindE_Inr)
  with floor_price [OF assms(13)] show ?thesis
    by (simp add: success_body_def Let_def)
qed


lemma extract_feature_object:
  "extract_features (feature_object a b c d e) =
     bindE (py_float a) (\<lambda>f0. bindE (py_float b) (\<lambda>f1. bindE (py_float c) (\<lambda>f2.
     bindE (py_float d) (\<lambda>f3. bindE (py_float e) (\<lambda>f4. Inr [f0, f1, f2, f3, f4])))))"
  by (simp add: extract_features_def feature_object_def bindE_Inr)

lemma py_float_small_int: "\<bar>n\<bar> \<le> 100000 \<Longrightarrow> py_float (JInt n) = Inr (Fin (real_of_int n))"
proof -
  assume "\<bar>n\<bar> \<le> 100000"
  then have "\<bar>real_of_int n\<bar> \<le> 100000" by linarith
  moreover have "(100000::real) < float_overflow" by (simp add: float_overflow_def)
  ultimately show ?thesis by simp
qed

lemma demo_raw_prediction:
  "raw_prediction demo_sklearn demo_world [Fin b, Fin ba, Fin s, Fin fl, Fin a] =
     Inr (Fin (15000 * b + 20000 * ba + 150 * s + 10000 * fl - 2000 * a))"
  by (simp add: raw_prediction_def demo_sklearn_def demo_world_def bindE_Inr fin_row_def)

theorem predict_price_floor_witness:
  "(\<exists>price rest.
      predict_price demo_sklearn demo_world
        (Inr (feature_object (JInt 3) (JInt 2) (JInt 1800) (JInt 1) (JInt 10)))
        = (200, JObj ((''predicted_price'', price) # rest))
      \<and> price = JFloat (Fin 345000) \<and> num_ge price 50000) \<and>
   (\<exists>price rest.
      predict_price demo_sklearn demo_world
        (Inr (feature_object (JInt 1) (JFloat (Fin 0.5)) (JInt 100) (JInt 1) (JInt 200)))
        = (200, JObj ((''predicted_price'', price) # rest))
      \<and> price = JInt 50000 \<and> num_ge price 50000)"
proof -
  have e1: "extract_features (feature_object (JInt 3) (JInt 2) (JInt 1800) (JInt 1) (JInt 10))
              = Inr [Fin 3, Fin 2, Fin 1800, Fin 1, Fin 10]"
    by (simp add: extract_feature_object py_float_small_int bindE_Inr del: py_float.simps)
  have r1: "raw_prediction demo_sklearn demo_world [Fin 3, Fin 2, Fin 1800, Fin 1, Fin 10] = Inr (Fin 345000)"
    by (simp add: demo_raw_prediction)
  have e2: "extract_features (feature_object (JInt 1) (JFloat (Fin 0.5)) (JInt 100) (JInt 1) (JInt 200))
              = Inr [Fin 1, Fin 0.5, Fin 100, Fin 1, Fin 200]"
    by (simp add: extract_feature_object py_float_small_int bindE_Inr del: py_float.simps(2))
  have r2: "raw_prediction demo_sklearn demo_world [Fin 1, Fin 0.5, Fin 100, Fin 1, Fin 200] = Inr (Fin (- 350000))"
    by (simp add: demo_raw_prediction)
  have p1: "py_round2 (py_max (Fin 345000) 50000) = PyFloat (Fin 345000)"
    by (simp add: py_max_def round_half_even_def)
  have p2: "py_round2 (py_max (Fin (- 350000)) 50000) = PyInt 50000"
    by (simp add: py_max_def)
  from predict_price_floor [OF e1 _ _ _ _ _ _ _ _ _ _ r1] predict_price_floor [OF e2 _ _ _ _ _ _ _ _ _ _ r2]
  show ?thesis by (simp add: p1 p2)
qed

subsection \<open>The range checks\<close>






subsection \<open>Not a number\<close>

lemma float_of_string_nan: "float_of_string ''nan'' = Some NaN"
  by code_simp

lemma float_of_string_NaN: "float_of_string ''NaN'' = Some NaN"
  by code_simp

lemma range_error_nan: "range_error [NaN, NaN, NaN, NaN, NaN] = None"
  by (simp add: range_error_def)

lemma predict_price_features:
  assumes "extract_features data = Inr fs" and "range_error fs = None"
  shows "predict_price L w (Inr data) =
     (case raw_prediction L w fs of
        Inr raw \<Rightarrow> (200, success_body raw fs)
      | Inl e \<Rightarrow>
          (if is_ValueError e then (400, error_body (''Invalid input data: '' @ exn_str e))
           else (500, error_body (''Prediction failed: '' @ exn_str e))))"
  using assms by (cases "raw_prediction L w fs") (simp_all add: predict_price_def bindE_Inr bindE_Inl predict_try_features)

text \<open>
  C9. The strings "nan" and "NaN" convert to the float NaN, which lies in none of the
  declared ranges; both comparisons of every range check are false for it, so a request
  with all five fields given that way passes the five checks, and the answer is whatever
  the scaler and the model make of the NaN features.
\<close>

theorem nan_passes_range_checks:
  "extract_features (feature_object (JStr ''nan'') (JStr ''NaN'') (JStr ''nan'') (JStr ''nan'') (JStr ''nan''))
     = Inr [NaN, NaN, NaN, NaN, NaN] \<and>
   list_all (\<lambda>rg. \<not> in_declared_range NaN rg) declared_ranges \<and>
   \<not> flt_lt NaN c \<and> \<not> flt_gt NaN c \<and>
   range_error [NaN, NaN, NaN, NaN, NaN] = None \<and>
   predict_price L w (Inr (feature_object (JStr ''nan'') (JStr ''NaN'') (JStr ''nan'') (JStr ''nan'') (JStr ''nan''))) =
     (case raw_prediction L w [NaN, NaN, NaN, NaN, NaN] of
        Inr raw \<Rightarrow> (200, success_body raw [NaN, NaN, NaN, NaN, NaN])
      | Inl e \<Rightarrow>
          (if is_ValueError e then (400, error_body (''Invalid input data: '' @ exn_str e))
           else (500, error_body (''Prediction failed: '' @ exn_str e))))"
proof -
  have e: "extract_features (feature_object (JStr ''nan'') (JStr ''NaN'') (JStr ''nan'') (JStr ''nan'') (JStr ''nan''))
     = Inr [NaN, NaN, NaN, NaN, NaN]"
    by (simp add: extract_feature_object float_of_string_nan float_of_string_NaN bindE_Inr)
  have r: "list_all (\<lambda>rg. \<not> in_declared_range NaN rg) declared_ranges"
    by (simp add: declared_ranges_def)
  show ?thesis
    using e r range_error_nan predict_price_features [OF e range_error_nan] by simp
qed

subsection \<open>Exceptions and status codes\<close>

lemma predict_try_status:
  assumes "predict_try L w data = Inr resp"
  shows "fst resp = 200 \<or> fst resp = 400"
  using assms by (auto simp: predict_try_def bindE_eq_Inr split: option.splits)

lemma predict_price_raised:
  assumes "bindE request (predict_try L w) = Inl e"
  shows "predict_price L w request =
     (if is_ValueError e then (400, error_body (''Invalid input data: '' @ exn_str e))
      else (500, error_body (''Prediction failed: '' @ exn_str e)))"
  using assms by (simp add: predict_price_def)

lemma predict_price_500_iff:
  "fst (predict_price L w request) = 500 \<longleftrightarrow>
     (\<exists>e. bindE request (predict_try L w) = Inl e \<and> \<not> is_ValueError e)"
proof (cases "bindE request (predict_try L w)")
  case (Inl e)
  then show ?thesis by (simp add: predict_price_def)
next
  case (Inr resp)
  then obtain data where "request = Inr data" "predict_try L w data = Inr resp"
    by (auto simp: bindE_eq_Inr)
  then have "fst resp = 200 \<or> fst resp = 400"
    using predict_try_status by blast
  with Inr show ?thesis by (auto simp: predict_price_def)
qed

lemma predict_try_first_field:
  assumes "py_float a = Inl e"
  shows "predict_try L w (feature_object a b c d x) = Inl e"
proof -
  have "missing_field (feature_object a b c d x) feature_names = Inr None"
    by (simp add: feature_object_def missing_field_object feature_names_def)
  moreover have "extract_features (feature_object a b c d x) = Inl e"
    using assms by (simp add: extract_feature_object bindE_Inl)
  ultimately show ?thesis by (simp add: predict_try_def bindE_Inr bindE_Inl)
qed

lemma predict_price_null_field:
  "predict_price L w (Inr (feature_object JNull b c d x)) =
     (500, error_body (''Prediction failed: float() argument must be a string or a real number, not ''
                        @ quoted ''NoneType''))"
  using predict_try_first_field [of JNull _ L w b c d x]
  by (simp add: predict_price_def bindE_Inr)

lemma predict_price_not_container:
  "predict_price L w (Inr JNull) =
     (500, error_body (''Prediction failed: argument of type '' @ quoted ''NoneType'' @ '' is not iterable''))"
  "predict_price L w (Inr (JInt n)) =
     (500, error_body (''Prediction failed: argument of type '' @ quoted ''int'' @ '' is not iterable''))"
  by (simp_all add: predict_price_def predict_try_def bindE_Inr bindE_Inl feature_names_def)

lemma predict_price_list_of_names:
  "predict_price L w (Inr (JList (map JStr feature_names))) =
     (500, error_body ''Prediction failed: list indices must be integers or slices, not str'')"
proof -
  have "missing_field (JList (map JStr feature_names)) feature_names = Inr None"
    by (simp add: feature_names_def)
  moreover have "extract_features (JList (map JStr feature_names)) =
      Inl (TypeError ''list indices must be integers or slices, not str'')"
    by (simp add: extract_features_def bindE_Inl)
  ultimately show ?thesis
    by (simp add: predict_price_def predict_try_def bindE_Inr bindE_Inl)
qed

text \<open>
  C10. When the handler's \<^verbatim>\<open>try\<close> block raises, a \<^verbatim>\<open>ValueError\<close> is answered with 400
  and every other exception with 500 and a message that starts with "Prediction failed:
  "; 500 is answered in no other case. A JSON null as value of a required field, a body
  that is null or a number, and a body that is the list of the five names all raise
  \<^verbatim>\<open>TypeError\<close> and are answered with 500.
\<close>

theorem only_value_error_is_400:
  "(bindE request (predict_try L w) = Inl e \<longrightarrow>
      predict_price L w request =
        (if is_ValueError e then (400, error_body (''Invalid input data: '' @ exn_str e))
         else (500, error_body (''Prediction failed: '' @ exn_str e)))) \<and>
   (fst (predict_price L w request) = 500 \<longleftrightarrow>
      (\<exists>e'. bindE request (predict_try L w) = Inl e' \<and> \<not> is_ValueError e')) \<and>
   predict_price L w (Inr (feature_object JNull b c d x)) =
     (500, error_body (''Prediction failed: float() argument must be a string or a real number, not ''
                        @ quoted ''NoneType'')) \<and>
   predict_price L w (Inr JNull) =
     (500, error_body (''Prediction failed: argument of type '' @ quoted ''NoneType'' @ '' is not iterable'')) \<and>
   predict_price L w (Inr (JInt n)) =
     (500, error_body (''Prediction failed: argument of type '' @ quoted ''int'' @ '' is not iterable'')) \<and>
   predict_price L w (Inr (JList (map JStr feature_names))) =
     (500, error_body ''Prediction failed: list indices must be integers or slices, not str'')"
  using predict_price_raised [of request L w e] predict_price_500_iff [of L w request]
    predict_price_null_field [of L w b c d x] predict_price_not_container [of L w]
    predict_price_list_of_names [of L w]
  by blast

lemma float_of_string_abc: "float_of_string ''abc'' = None"
  by code_simp

lemma py_repr_abc: "py_repr ''abc'' = quoted ''abc''"
  by code_simp

theorem only_value_error_is_400_witness:
  "bindE (Inr (feature_object (JStr ''abc'') (JInt 2) (JInt 1800) (JInt 1) (JInt 10)))
       (predict_try demo_sklearn demo_world)
     = Inl (ValueError (''could not convert string to float: '' @ quoted ''abc'')) \<and>
   predict_price demo_sklearn demo_world
       (Inr (feature_object (JStr ''abc'') (JInt 2) (JInt 1800) (JInt 1) (JInt 10)))
     = (400, error_body (''Invalid input data: could not convert string to float: '' @ quoted ''abc'')) \<and>
   bindE (Inl (OtherError ''400 Bad Request'')) (predict_try demo_sklearn demo_world)
     = Inl (OtherError ''400 Bad Request'') \<and>
   predict_price demo_sklearn demo_world (Inl (OtherError ''400 Bad Request''))
     = (500, error_body ''Prediction failed: 400 Bad Request'')"
proof -
  have a: "bindE (Inr (feature_object (JStr ''abc'') (JInt 2) (JInt 1800) (JInt 1) (JInt 10)))
       (predict_try demo_sklearn demo_world)
     = Inl (ValueError (''could not convert string to float: '' @ quoted ''abc''))"
    using predict_try_first_field [of "JStr ''abc''" "ValueError (''could not convert string to float: '' @ quoted ''abc'')"]
    by (simp add: bindE_Inr float_of_string_abc py_repr_abc)
  have b: "bindE (Inl (OtherError ''400 Bad Request'')) (predict_try demo_sklearn demo_world)
     = Inl (OtherError ''400 Bad Request'')"
    by (simp add: bindE_Inl)
  from only_value_error_is_400 [of "Inr (feature_object (JStr ''abc'') (JInt 2) (JInt 1800) (JInt 1) (JInt 10))"
        demo_sklearn demo_world "ValueError (''could not convert string to float: '' @ quoted ''abc'')"]
    only_value_error_is_400 [of "Inl (OtherError ''400 Bad Request'')" demo_sklearn demo_world
        "OtherError ''400 Bad Request''"]
  show ?thesis using a b by simp
qed

text \<open>
  C2. The handler at a request with all five fields present whose bedrooms value is JSON
  null: \<^verbatim>\<open>float(None)\<close> raises \<^verbatim>\<open>TypeError\<close>, and the answer is 500, not 400. A string
  that is no number at the same place is answered with 400.
\<close>

theorem null_field_answers_500:
  "py_float JNull = Inl (TypeError (''float() argument must be a string or a real number, not '' @ quoted ''NoneType'')) \<and>
   predict_price L w (Inr (feature_object JNull (JInt 2) (JInt 1800) (JInt 1) (JInt 10))) =
     (500, error_body (''Prediction failed: float() argument must be a string or a real number, not ''
                        @ quoted ''NoneType'')) \<and>
   fst (predict_price L w (Inr (feature_object (JStr ''abc'') (JInt 2) (JInt 1800) (JInt 1) (JInt 10)))) = 400"
proof -
  have "predict_try L w (feature_object (JStr ''abc'') (JInt 2) (JInt 1800) (JInt 1) (JInt 10))
     = Inl (ValueError (''could not convert string to float: '' @ quoted ''abc''))"
    using predict_try_first_field [of "JStr ''abc''" "ValueError (''could not convert string to float: '' @ quoted ''abc'')"]
    by (simp add: float_of_string_abc py_repr_abc)
  then show ?thesis
    using predict_price_null_field [of L w "JInt 2" "JInt 1800" "JInt 1" "JInt 10"]
    by (simp add: predict_price_def bindE_Inr)
qed

subsection \<open>The synthesized data\<close>







subsection \<open>Training\<close>

lemma create_sample_data_seeded: "create_sample_data R g1 = create_sample_data R g2"
  by (simp add: create_sample_data_def)

lemma fit_pipeline_seeded: "fit_pipeline R L g1 = fit_pipeline R L g2"
  unfolding fit_pipeline_def by (subst create_sample_data_seeded [of R g1 g2]) (rule refl)

lemma write_twice:
  "a \<noteq> b \<Longrightarrow> (f(a \<mapsto> x, b \<mapsto> y))(a \<mapsto> x, b \<mapsto> y) = f(a \<mapsto> x, b \<mapsto> y)"
  by (rule ext) simp

lemma train_model_result:
  assumes "fit_pipeline R L g0 = (sc, m, g')"
  shows "train_model R L w =
           w\<lparr>scaler := Some sc, model := Some m, rng := g',
             files := (files w)(model_path \<mapsto> m, scaler_path \<mapsto> sc)\<rparr>"
proof -
  have "fit_pipeline R L (rng w) = (sc, m, g')"
    using assms fit_pipeline_seeded [of R L "rng w" g0] by simp
  then show ?thesis by (simp add: train_model_def)
qed

text \<open>
  C7. Training does not depend on the state it starts in: the data set, the split, the
  fitted scaler and model, the globals and the two persisted artifacts are the same from
  any two generator states and any two worlds, because the synthesizer seeds the
  generator before it draws and the split has a fixed random state; training a second
  time after the first changes nothing.
\<close>

theorem training_deterministic:
  "create_sample_data R g1 = create_sample_data R g2 \<and>
   sk_train_test_split L (feature_rows (fst (create_sample_data R g1))) (price (fst (create_sample_data R g1))) 0.2 42
     = sk_train_test_split L (feature_rows (fst (create_sample_data R g2))) (price (fst (create_sample_data R g2))) 0.2 42 \<and>
   fit_pipeline R L g1 = fit_pipeline R L g2 \<and>
   model (train_model R L w1) = model (train_model R L w2) \<and>
   scaler (train_model R L w1) = scaler (train_model R L w2) \<and>
   files (train_model R L w1) model_path = files (train_model R L w2) model_path \<and>
   files (train_model R L w1) scaler_path = files (train_model R L w2) scaler_path \<and>
   train_model R L (train_model R L w) = train_model R L w"
proof -
  obtain sc m g' where fp: "fit_pipeline R L g1 = (sc, m, g')"
    by (cases "fit_pipeline R L g1") auto
  note tm = train_model_result [OF fp]
  have p: "model_path \<noteq> scaler_path"
    by (simp add: model_path_def scaler_path_def)
  have d: "create_sample_data R g1 = create_sample_data R g2"
    by (rule create_sample_data_seeded)
  have s: "sk_train_test_split L (feature_rows (fst (create_sample_data R g1))) (price (fst (create_sample_data R g1))) 0.2 42
     = sk_train_test_split L (feature_rows (fst (create_sample_data R g2))) (price (fst (create_sample_data R g2))) 0.2 42"
    by (simp only: d)
  have f: "fit_pipeline R L g1 = fit_pipeline R L g2"
    by (rule fit_pipeline_seeded)
  have a: "model (train_model R L w1) = model (train_model R L w2)"
    "scaler (train_model R L w1) = scaler (train_model R L w2)"
    "files (train_model R L w1) model_path = files (train_model R L w2) model_path"
    "files (train_model R L w1) scaler_path = files (train_model R L w2) scaler_path"
    by (simp_all add: tm [of w1] tm [of w2])
  have t: "train_model R L (train_model R L w) = train_model R L w"
    by (subst tm) (simp add: tm [of w] write_twice [OF p])
  from d s f a t show ?thesis by blast
qed

subsection \<open>Loading\<close>

lemma train_model_files:
  "path_exists (train_model R L w) model_path"
  "path_exists (train_model R L w) scaler_path"
  "files (train_model R L w) model_path = model (train_model R L w)"
  "files (train_model R L w) scaler_path = scaler (train_model R L w)"
  "model (train_model R L w) = Some (fst (snd (fit_pipeline R L (rng w))))"
  "scaler (train_model R L w) = Some (fst (fit_pipeline R L (rng w)))"
  by (simp_all add: train_model_def path_exists_def split_def Let_def model_path_def scaler_path_def)

text \<open>
  C5. \<^verbatim>\<open>load_model\<close> takes the model and the scaler from the two files when both
  exist, and writes nothing; in every other case, a partial pair included, it is
  \<^verbatim>\<open>train_model\<close>, after which both files exist and hold the freshly fitted pair that
  is also in the globals.
\<close>

theorem load_model_branches:
  "(path_exists w model_path \<and> path_exists w scaler_path \<longrightarrow>
      (\<exists>m sc. files w model_path = Some m \<and> files w scaler_path = Some sc \<and>
               load_model R L w = w\<lparr>model := Some m, scaler := Some sc\<rparr>)) \<and>
   (\<not> (path_exists w model_path \<and> path_exists w scaler_path) \<longrightarrow>
      load_model R L w = train_model R L w) \<and>
   (path_exists w model_path \<and> \<not> path_exists w scaler_path \<longrightarrow> load_model R L w = train_model R L w) \<and>
   (\<not> path_exists w model_path \<and> path_exists w scaler_path \<longrightarrow> load_model R L w = train_model R L w) \<and>
   path_exists (train_model R L w) model_path \<and>
   path_exists (train_model R L w) scaler_path \<and>
   files (train_model R L w) model_path = Some (fst (snd (fit_pipeline R L (rng w)))) \<and>
   files (train_model R L w) scaler_path = Some (fst (fit_pipeline R L (rng w))) \<and>
   model (train_model R L w) = Some (fst (snd (fit_pipeline R L (rng w)))) \<and>
   scaler (train_model R L w) = Some (fst (fit_pipeline R L (rng w)))"
  using train_model_files [of R L w]
  by (auto simp: load_model_def path_exists_def)

theorem load_model_branches_witness:
  "load_model demo_random demo_sklearn
      (demo_world\<lparr>model := None, scaler := None, files := [model_path \<mapsto> [1], scaler_path \<mapsto> [2]]\<rparr>)
     = demo_world\<lparr>model := Some [1], scaler := Some [2], files := [model_path \<mapsto> [1], scaler_path \<mapsto> [2]]\<rparr> \<and>
   load_model demo_random demo_sklearn (demo_world\<lparr>files := [model_path \<mapsto> [1]]\<rparr>)
     = train_model demo_random demo_sklearn (demo_world\<lparr>files := [model_path \<mapsto> [1]]\<rparr>) \<and>
   load_model demo_random demo_sklearn (demo_world\<lparr>files := [scaler_path \<mapsto> [2]]\<rparr>)
     = train_model demo_random demo_sklearn (demo_world\<lparr>files := [scaler_path \<mapsto> [2]]\<rparr>) \<and>
   load_model demo_random demo_sklearn demo_world = train_model demo_random demo_sklearn demo_world \<and>
   files (load_model demo_random demo_sklearn (demo_world\<lparr>files := [model_path \<mapsto> [1]]\<rparr>)) model_path
     = Some [15000, 20000, 150, 10000, - 2000]"
proof -
  have p: "model_path \<noteq> scaler_path"
    by (simp add: model_path_def scaler_path_def)
  have m: "fst (snd (fit_pipeline demo_random demo_sklearn g)) = [15000, 20000, 150, 10000, - 2000]" for g
    by (simp add: fit_pipeline_def split_def Let_def demo_sklearn_def)
  from load_model_branches [of "demo_world\<lparr>model := None, scaler := None, files := [model_path \<mapsto> [1], scaler_path \<mapsto> [2]]\<rparr>"
        demo_random demo_sklearn]
    load_model_branches [of "demo_world\<lparr>files := [model_path \<mapsto> [1]]\<rparr>" demo_random demo_sklearn]
    load_model_branches [of "demo_world\<lparr>files := [scaler_path \<mapsto> [2]]\<rparr>" demo_random demo_sklearn]
    load_model_branches [of demo_world demo_random demo_sklearn]
  show ?thesis using p
    by (simp add: path_exists_def demo_world_def m)
qed

subsection \<open>Model information\<close>

lemma load_model_loaded:
  "model (load_model R L w) \<noteq> None \<and> scaler (load_model R L w) \<noteq> None"
  using train_model_files(5,6) [of R L w]
  by (auto simp: load_model_def path_exists_def)

text \<open>
  C6. \<^verbatim>\<open>model_info\<close> answers 500 exactly when the global \<^verbatim>\<open>model\<close> is \<open>None\<close>, with the
  error "Model not loaded"; in every other state it answers 200 with the fixed model
  type, the five feature names and their fixed descriptions. After \<^verbatim>\<open>load_model\<close> both
  globals are set, so it answers 200 from then on.
\<close>

theorem model_info_status:
  "(fst (model_info w) = 500 \<longleftrightarrow> model w = None) \<and>
   (model w = None \<longrightarrow> model_info w = (500, JObj [(''error'', JStr ''Model not loaded'')])) \<and>
   (model w \<noteq> None \<longrightarrow>
      model_info w =
        (200, JObj [(''model_type'', JStr ''Linear Regression''),
                    (''features'', JList [JStr ''bedrooms'', JStr ''bathrooms'', JStr ''sqft_living'',
                                          JStr ''floors'', JStr ''age'']),
                    (''feature_descriptions'',
                       JObj [(''bedrooms'', JStr ''Number of bedrooms (1-10)''),
                             (''bathrooms'', JStr ''Number of bathrooms (0.5-10)''),
                             (''sqft_living'', JStr ''Living area in square feet (100-20,000)''),
                             (''floors'', JStr ''Number of floors (1-5)''),
                             (''age'', JStr ''Age of the house in years (0-200)'')])])) \<and>
   model_info (load_model R L w0) = (200, model_info_body)"
proof -
  have "model_info (load_model R L w0) = (200, model_info_body)"
    using load_model_loaded [of R L w0] by (auto simp: model_info_def)
  then show ?thesis
    by (cases "model w") (simp_all add: model_info_def model_info_body_def error_body_def feature_names_def)
qed

theorem model_info_status_witness:
  "fst (model_info demo_world) = 200 \<and>
   model_info (demo_world\<lparr>model := None, scaler := None\<rparr>)
     = (500, JObj [(''error'', JStr ''Model not loaded'')]) \<and>
   fst (model_info (load_model demo_random demo_sklearn (demo_world\<lparr>model := None, scaler := None\<rparr>))) = 200"
  using model_info_status [of demo_world demo_random demo_sklearn "demo_world\<lparr>model := None, scaler := None\<rparr>"]
    model_info_status [of "demo_world\<lparr>model := None, scaler := None\<rparr>" demo_random demo_sklearn demo_world]
  by (simp add: demo_world_def)

end
